theory Spec2Isabelle
  imports Main
begin

section \<open>Values crossing the component boundary\<close>

text \<open>
  The block mover (\<^verbatim>\<open>block-mover/index.native.js\<close>) is a function component wrapped by
  \<^verbatim>\<open>withSelect\<close>, \<^verbatim>\<open>withDispatch\<close> and \<^verbatim>\<open>withInstanceId\<close>. Client ids are strings. A root
  client id is a string, or \<^verbatim>\<open>null\<close>/\<^verbatim>\<open>undefined\<close> (\<open>None\<close>). The \<^verbatim>\<open>clientIds\<close> prop is a
  single id or an array of ids (\<^verbatim>\<open>castArray\<close> normalises it). A template lock is a string
  (\<^verbatim>\<open>'all'\<close>, \<^verbatim>\<open>'insert'\<close>), \<^verbatim>\<open>false\<close> or \<^verbatim>\<open>undefined\<close>. Indices are JavaScript numbers holding
  integers (\<open>-1\<close> for "not found"), modelled as \<open>int\<close>.
\<close>

type_synonym clientId = string

type_synonym root = "string option"

datatype clientIds = Single clientId | Many "clientId list"

datatype lock_value = LockString string | LockFalse | LockUndefined

datatype icon = arrowUp | arrowDown | arrowLeft | arrowRight

datatype js_arg = Str string | Num int

text \<open>JavaScript truthiness of a root client id: \<^verbatim>\<open>null\<close>, \<^verbatim>\<open>undefined\<close> and \<^verbatim>\<open>''\<close> are falsy.\<close>

fun truthy :: "root \<Rightarrow> bool" where
  "truthy None = False"
| "truthy (Some s) = (s \<noteq> [])"

text \<open>lodash \<^verbatim>\<open>castArray\<close>, \<^verbatim>\<open>first\<close> and \<^verbatim>\<open>last\<close>; the last two give \<^verbatim>\<open>undefined\<close> on \<^verbatim>\<open>[]\<close>.\<close>

fun castArray :: "clientIds \<Rightarrow> clientId list" where
  "castArray (Single c) = [c]"
| "castArray (Many cs) = cs"

fun lodash_first :: "'a list \<Rightarrow> 'a option" where
  "lodash_first [] = None"
| "lodash_first (x # xs) = Some x"

fun lodash_last :: "'a list \<Rightarrow> 'a option" where
  "lodash_last [] = None"
| "lodash_last [x] = Some x"
| "lodash_last (x # y # ys) = lodash_last (y # ys)"

section \<open>The formatting service\<close>

text \<open>\<^verbatim>\<open>String( n )\<close> for an integer number: decimal digits, with a minus sign below zero.\<close>

definition digit_char :: "nat \<Rightarrow> char" where
  "digit_char d = ''0123456789'' ! d"

fun show_nat :: "nat \<Rightarrow> string" where
  "show_nat n = (if n < 10 then [digit_char n] else show_nat (n div 10) @ [digit_char (n mod 10)])"

declare show_nat.simps [simp del]

fun js_String :: "js_arg \<Rightarrow> string" where
  "js_String (Str s) = s"
| "js_String (Num n) = (if n < 0 then CHR ''-'' # show_nat (nat (- n)) else show_nat (nat n))"

text \<open>
  The pieces of a template scan: where the scanner stands (in literal text, after \<^verbatim>\<open>%\<close>, in
  the digits of a position, after \<^verbatim>\<open>$\<close>), the value of a digit, and the string form of the
  \<open>n\<close>-th argument counted from 1 (\<^verbatim>\<open>undefined\<close> when there is none).
\<close>

datatype scan = Literal | Percent | Param nat | Dollar nat

definition digit_value :: "char \<Rightarrow> nat option" where
  "digit_value c =
     map_of [(CHR ''0'', 0), (CHR ''1'', 1), (CHR ''2'', 2), (CHR ''3'', 3), (CHR ''4'', 4),
             (CHR ''5'', 5), (CHR ''6'', 6), (CHR ''7'', 7), (CHR ''8'', 8), (CHR ''9'', 9)] c"

fun positional :: "js_arg list \<Rightarrow> nat \<Rightarrow> string" where
  "positional [] n = ''undefined''"
| "positional (a # as) n = (if n = 1 then js_String a else positional as (n - 1))"

text \<open>
  Modelled from the spec: the localization/formatting service of section 6, which "maps
  (template, positional args) to a display string". \<^verbatim>\<open>sprintf\<close> of the i18n package is not
  among the sources; the component calls it with the positional conversions \<^verbatim>\<open>%1$s\<close> to
  \<^verbatim>\<open>%4$s\<close>. The model covers literal text, \<^verbatim>\<open>%%\<close> and \<^verbatim>\<open>%N$s\<close>, where \<^verbatim>\<open>%N$s\<close> stands for the
  string form of the \<open>N\<close>-th argument counted from 1 (\<^verbatim>\<open>undefined\<close> when there is none). A
  template outside this fragment scans to \<open>None\<close> and is not interpreted: \<^verbatim>\<open>sprintf\<close> then
  gives the template back unchanged. The mover's template lies inside the fragment.
\<close>

fun sprintf_scan :: "scan \<Rightarrow> string \<Rightarrow> js_arg list \<Rightarrow> string option" where
  "sprintf_scan Literal [] args = Some []"
| "sprintf_scan Percent [] args = None"
| "sprintf_scan (Param n) [] args = None"
| "sprintf_scan (Dollar n) [] args = None"
| "sprintf_scan Literal (c # cs) args =
     (if c = CHR ''%'' then sprintf_scan Percent cs args
      else map_option ((#) c) (sprintf_scan Literal cs args))"
| "sprintf_scan Percent (c # cs) args =
     (if c = CHR ''%'' then map_option ((#) c) (sprintf_scan Literal cs args)
      else case digit_value c of
             None \<Rightarrow> None
           | Some d \<Rightarrow> if d = 0 then None else sprintf_scan (Param d) cs args)"
| "sprintf_scan (Param n) (c # cs) args =
     (if c = CHR ''$'' then sprintf_scan (Dollar n) cs args
      else case digit_value c of
             None \<Rightarrow> None
           | Some d \<Rightarrow> sprintf_scan (Param (10 * n + d)) cs args)"
| "sprintf_scan (Dollar n) (c # cs) args =
     (if c = CHR ''s'' then map_option ((@) (positional args n)) (sprintf_scan Literal cs args)
      else None)"

text \<open>
  Modelled from the spec: \<^verbatim>\<open>sprintf\<close> of the formatting service, from the scan above; a
  template the scan does not cover is given back as it is.
\<close>

definition sprintf :: "string \<Rightarrow> js_arg list \<Rightarrow> string" where
  "sprintf format args =
     (case sprintf_scan Literal format args of None \<Rightarrow> format | Some s \<Rightarrow> s)"

section \<open>The component\<close>

text \<open>
  The object returned by the \<^verbatim>\<open>withSelect\<close> callback, and the props of \<^verbatim>\<open>BlockMover\<close>: the
  selected props, the two callbacks of \<^verbatim>\<open>withDispatch\<close>, the parent's \<^verbatim>\<open>horizontalDirection\<close>
  (by its truthiness) and the \<^verbatim>\<open>instanceId\<close> of \<^verbatim>\<open>withInstanceId\<close>.
\<close>

record select_props =
  firstIndex :: int
  isFirst :: bool
  isLast :: bool
  isLocked :: bool
  rootClientId :: root

record 'cb props = select_props +
  onMoveDown :: 'cb
  onMoveUp :: 'cb
  horizontalDirection :: bool
  instanceId :: nat

record 'cb ToolbarButton =
  title :: string
  isDisabled :: bool
  onClick :: 'cb
  icon :: icon
  hint :: string

datatype 'cb element = Null | Fragment "'cb ToolbarButton" "'cb ToolbarButton"

text \<open>
  \<^verbatim>\<open>BlockMover\<close>, lines 15 to 98. The translation function \<^verbatim>\<open>__\<close> of the i18n package is
  the parameter \<open>tr\<close>.
\<close>

definition BlockMover :: "(string \<Rightarrow> string) \<Rightarrow> 'cb props \<Rightarrow> 'cb element" where
  "BlockMover tr p =
     (let firstButtonIcon = (if horizontalDirection p then arrowLeft else arrowUp);
          secondButtonIcon = (if horizontalDirection p then arrowRight else arrowDown);
          firstButtonHint = (if horizontalDirection p
             then tr ''Double tap to move the block to the left''
             else tr ''Double tap to move the block up'');
          secondButtonHint = (if horizontalDirection p
             then tr ''Double tap to move the block to the right''
             else tr ''Double tap to move the block down'');
          firstBlockTitle = (if horizontalDirection p
             then tr ''Move block left'' else tr ''Move block up'');
          lastBlockTitle = (if horizontalDirection p
             then tr ''Move block right'' else tr ''Move block down'');
          firstButtonDirection = (if horizontalDirection p then ''left'' else ''up'');
          secondButtonDirection = (if horizontalDirection p then ''right'' else ''down'');
          location = (if horizontalDirection p then ''position'' else ''row'')
      in if isLocked p \<or> (isFirst p \<and> isLast p \<and> \<not> truthy (rootClientId p)) then Null
         else Fragment
           \<lparr> title =
               (if \<not> isFirst p
                then sprintf (tr ''Move block %2$s from %1$s %3$s to %1$s %4$s'')
                       [Str location, Str firstButtonDirection,
                        Num (firstIndex p + 1), Num (firstIndex p)]
                else firstBlockTitle),
             isDisabled = isFirst p,
             onClick = onMoveUp p,
             icon = firstButtonIcon,
             hint = firstButtonHint \<rparr>
           \<lparr> title =
               (if \<not> isLast p
                then sprintf (tr ''Move block %2$s from %1$s %3$s to %1$s %4$s'')
                       [Str location, Str secondButtonDirection,
                        Num (firstIndex p + 1), Num (firstIndex p + 2)]
                else lastBlockTitle),
             isDisabled = isLast p,
             onClick = onMoveDown p,
             icon = secondButtonIcon,
             hint = secondButtonHint \<rparr>)"

section \<open>The store wiring\<close>

text \<open>
  \<^verbatim>\<open>select( 'core/block-editor' )\<close> gives the four selectors the \<^verbatim>\<open>withSelect\<close> callback
  uses. Their code is not among the sources, so they are parameters: functions of the
  store state \<open>'s\<close>. A selector call reads the state and hands it on; the state is threaded
  through the calls in the order of the source.
\<close>

record 's selectors =
  getBlockIndex :: "'s \<Rightarrow> clientId option \<Rightarrow> root \<Rightarrow> int"
  getTemplateLock :: "'s \<Rightarrow> root \<Rightarrow> lock_value"
  getBlockRootClientId :: "'s \<Rightarrow> clientId option \<Rightarrow> root"
  getBlockOrder :: "'s \<Rightarrow> root \<Rightarrow> clientId list"

definition select_call :: "('s \<Rightarrow> 'a) \<Rightarrow> 's \<Rightarrow> 'a \<times> 's" where
  "select_call f s = (f s, s)"

text \<open>
  The local constants of the \<^verbatim>\<open>withSelect\<close> callback, lines 108 to 116:
  \<^verbatim>\<open>rootClientId\<close>, \<^verbatim>\<open>blockOrder\<close>, \<^verbatim>\<open>firstIndex\<close> and \<^verbatim>\<open>lastIndex\<close>.
\<close>

definition withSelect_locals ::
  "'s selectors \<Rightarrow> clientIds \<Rightarrow> 's \<Rightarrow> (root \<times> clientId list \<times> int \<times> int) \<times> 's" where
  "withSelect_locals sel cids s0 =
     (let normalizedClientIds = castArray cids;
          firstClientId = lodash_first normalizedClientIds;
          (rootId, s1) = select_call (\<lambda>s. getBlockRootClientId sel s firstClientId) s0;
          (blockOrder, s2) = select_call (\<lambda>s. getBlockOrder sel s rootId) s1;
          (firstIx, s3) = select_call (\<lambda>s. getBlockIndex sel s firstClientId rootId) s2;
          (lastIx, s4) =
             select_call (\<lambda>s. getBlockIndex sel s (lodash_last normalizedClientIds) rootId) s3
      in ((rootId, blockOrder, firstIx, lastIx), s4))"

text \<open>The returned object, lines 118 to 124.\<close>

definition mapSelectToProps :: "'s selectors \<Rightarrow> clientIds \<Rightarrow> 's \<Rightarrow> select_props \<times> 's" where
  "mapSelectToProps sel cids s0 =
     (let ((rootId, blockOrder, firstIx, lastIx), s4) = withSelect_locals sel cids s0;
          (lock, s5) = select_call (\<lambda>s. getTemplateLock sel s rootId) s4
      in (\<lparr> firstIndex = firstIx,
            isFirst = (firstIx = 0),
            isLast = (lastIx = int (length blockOrder) - 1),
            isLocked = (lock = LockString ''all''),
            rootClientId = rootId \<rparr>, s5))"

text \<open>
  \<^verbatim>\<open>withDispatch\<close>, lines 126 to 134. The two action creators of the store are external;
  \<^verbatim>\<open>partial( f, a, b )\<close> is the closure that calls \<^verbatim>\<open>f\<close> with \<^verbatim>\<open>a\<close> and \<^verbatim>\<open>b\<close> bound. Building
  the closure calls nothing; \<open>invoke\<close> is what a press of the button does with it, given the
  store's own movers.
\<close>

datatype mutator = moveBlocksDown | moveBlocksUp

datatype callback = Partial mutator clientIds root

definition mapDispatchToProps :: "clientIds \<Rightarrow> root \<Rightarrow> callback \<times> callback" where
  "mapDispatchToProps cids rootId =
     (Partial moveBlocksDown cids rootId, Partial moveBlocksUp cids rootId)"

fun invoke :: "(mutator \<Rightarrow> clientIds \<Rightarrow> root \<Rightarrow> 's \<Rightarrow> 's) \<Rightarrow> callback \<Rightarrow> 's \<Rightarrow> 's" where
  "invoke dispatch (Partial m cids rootId) s = dispatch m cids rootId s"

text \<open>
  The exported component \<^verbatim>\<open>compose( withSelect, withDispatch, withInstanceId )( BlockMover )\<close>:
  the parent passes \<^verbatim>\<open>clientIds\<close> and \<^verbatim>\<open>horizontalDirection\<close>; \<^verbatim>\<open>withSelect\<close> is outermost, so
  \<^verbatim>\<open>withDispatch\<close> sees the selected \<^verbatim>\<open>rootClientId\<close>. The result is the rendered element and
  the store state after the evaluation.
\<close>

definition BlockMover_composed ::
  "'s selectors \<Rightarrow> (string \<Rightarrow> string) \<Rightarrow> nat \<Rightarrow> clientIds \<Rightarrow> bool \<Rightarrow> 's
     \<Rightarrow> callback element \<times> 's" where
  "BlockMover_composed sel tr iid cids horizontal s0 =
     (let (sp, s1) = mapSelectToProps sel cids s0;
          (down, up) = mapDispatchToProps cids (rootClientId sp)
      in (BlockMover tr
            \<lparr> firstIndex = firstIndex sp, isFirst = isFirst sp, isLast = isLast sp,
              isLocked = isLocked sp, rootClientId = rootClientId sp,
              onMoveDown = down, onMoveUp = up,
              horizontalDirection = horizontal, instanceId = iid \<rparr>, s1))"

text \<open>What a rendered element shows: nothing, or two controls.\<close>

fun controlsVisible :: "'cb element \<Rightarrow> bool" where
  "controlsVisible Null = False"
| "controlsVisible (Fragment earlier later) = True"

fun moveEarlierEnabled :: "'cb element \<Rightarrow> bool" where
  "moveEarlierEnabled Null = False"
| "moveEarlierEnabled (Fragment earlier later) = (\<not> isDisabled earlier)"

fun moveLaterEnabled :: "'cb element \<Rightarrow> bool" where
  "moveLaterEnabled Null = False"
| "moveLaterEnabled (Fragment earlier later) = (\<not> isDisabled later)"

fun earlierLabel :: "'cb element \<Rightarrow> string option" where
  "earlierLabel Null = None"
| "earlierLabel (Fragment earlier later) = Some (title earlier)"

fun laterLabel :: "'cb element \<Rightarrow> string option" where
  "laterLabel Null = None"
| "laterLabel (Fragment earlier later) = Some (title later)"

text \<open>Everything of an element but its callbacks: label, disabled flag, icon and hint.\<close>

fun shown :: "'cb element \<Rightarrow> (string \<times> bool \<times> icon \<times> string) list" where
  "shown Null = []"
| "shown (Fragment earlier later) =
     [(title earlier, isDisabled earlier, icon earlier, hint earlier),
      (title later, isDisabled later, icon later, hint later)]"

text \<open>
  The texts \<^verbatim>\<open>BlockMover\<close> hands to \<^verbatim>\<open>__\<close>: the four hints (lines 29 to 33), the four static
  titles (lines 36 to 40) and the template (lines 59 and 80).
\<close>

definition translated_texts :: "string list" where
  "translated_texts =
     [''Double tap to move the block to the left'', ''Double tap to move the block up'',
      ''Double tap to move the block to the right'', ''Double tap to move the block down'',
      ''Move block left'', ''Move block up'', ''Move block right'', ''Move block down'',
      ''Move block %2$s from %1$s %3$s to %1$s %4$s'']"

section \<open>The read port of the specification\<close>

text \<open>\<^verbatim>\<open>Array.prototype.indexOf\<close>: the first position holding the value, \<open>-1\<close> when none does.\<close>

fun indexOf_from :: "int \<Rightarrow> 'a list \<Rightarrow> 'a \<Rightarrow> int" where
  "indexOf_from k [] x = - 1"
| "indexOf_from k (y # ys) x = (if y = x then k else indexOf_from (k + 1) ys x)"

definition indexOf :: "'a list \<Rightarrow> 'a \<Rightarrow> int" where
  "indexOf xs x = indexOf_from 0 xs x"

text \<open>
  The state behind the read port: the ordering of each container, the container of each
  item and the lock of each container.
\<close>

record editor =
  ordering :: "root \<Rightarrow> clientId list"
  container :: "clientId \<Rightarrow> root"
  lockState :: "root \<Rightarrow> lock_value"

text \<open>
  Modelled from the spec: the store selectors of \<^verbatim>\<open>core/block-editor\<close> are not among the
  sources. Section 6 gives their contracts: \<^verbatim>\<open>getOrdering(container)\<close> is the ordered
  sequence of items of a container, \<^verbatim>\<open>getIndex(item, container)\<close> is the item's zero-based
  ordinal in that ordering or "not found" (\<open>-1\<close>, the ordinal section 7 names), and
  \<^verbatim>\<open>getLockState(container)\<close> is the container's lock. The container of an item is read from
  the store too. An \<^verbatim>\<open>undefined\<close> item is in no ordering and has no container.
\<close>

definition editor_selectors :: "editor selectors" where
  "editor_selectors =
     \<lparr> getBlockIndex =
         (\<lambda>s item rootId. case item of None \<Rightarrow> - 1 | Some c \<Rightarrow> indexOf (ordering s rootId) c),
       getTemplateLock = (\<lambda>s rootId. lockState s rootId),
       getBlockRootClientId =
         (\<lambda>s item. case item of None \<Rightarrow> None | Some c \<Rightarrow> container s c),
       getBlockOrder = (\<lambda>s rootId. ordering s rootId) \<rparr>"

section \<open>The reduced-motion style helper\<close>

text \<open>
  \<^verbatim>\<open>reduceMotion\<close>: the argument is a string or omitted (\<open>None\<close>), in which case the default
  \<^verbatim>\<open>'transition'\<close> applies. The template literals keep the line breaks and tabs of the
  source.
\<close>

abbreviation nl :: char where
  "nl \<equiv> CHR 0x0A"

abbreviation tab :: char where
  "tab \<equiv> CHR 0x09"

definition reduceMotion :: "string option \<Rightarrow> string" where
  "reduceMotion arg =
     (let prop = (case arg of None \<Rightarrow> ''transition'' | Some v \<Rightarrow> v);
          style =
            (if prop = ''transition'' then ''transition-duration: 0ms;''
             else if prop = ''animation'' then ''animation-duration: 1ms;''
             else [nl, tab, tab, tab, tab] @ ''animation-duration: 1ms;''
                  @ [nl, tab, tab, tab, tab] @ ''transition-duration: 0ms;''
                  @ [nl, tab, tab, tab])
      in [nl, tab, tab] @ ''@media ( prefers-reduced-motion: reduce ) {''
         @ [nl, tab, tab, tab] @ style @ '';''
         @ [nl, tab, tab] @ ''}''
         @ [nl, tab])"

text \<open>
  Reading the result as CSS: the text inside the braces of the media query, and the
  declarations of a block (split at \<^verbatim>\<open>;\<close>, white space trimmed, empty ones dropped).
\<close>

definition is_space :: "char \<Rightarrow> bool" where
  "is_space c = (c = CHR '' '' \<or> c = tab \<or> c = nl)"

definition trim :: "string \<Rightarrow> string" where
  "trim s = rev (dropWhile is_space (rev (dropWhile is_space s)))"

fun split_on :: "char \<Rightarrow> string \<Rightarrow> string list" where
  "split_on d [] = [[]]"
| "split_on d (c # cs) =
     (if c = d then [] # split_on d cs
      else case split_on d cs of [] \<Rightarrow> [[c]] | w # ws \<Rightarrow> (c # w) # ws)"

definition declarations :: "string \<Rightarrow> string list" where
  "declarations s = filter (\<lambda>w. w \<noteq> []) (map trim (split_on (CHR '';'') s))"

definition media_body :: "string \<Rightarrow> string \<Rightarrow> string option" where
  "media_body query s =
     (let t = trim s; n = length (''@media '' @ query)
      in if take n t = ''@media '' @ query
         then (case dropWhile is_space (drop n t) of
                 [] \<Rightarrow> None
               | c # b \<Rightarrow> if c = CHR ''{'' \<and> b \<noteq> [] \<and> last b = CHR ''}''
                          then Some (butlast b) else None)
         else None)"

section \<open>Fixtures\<close>

text \<open>
  With no locale data loaded, \<^verbatim>\<open>__\<close> gives its argument back: the labels are the source's
  English texts.
\<close>

definition untranslated :: "string \<Rightarrow> string" where
  "untranslated text = text"

text \<open>
  With locale data loaded, \<^verbatim>\<open>__\<close> gives the translation the data holds for a text, and the
  text itself where it holds none. Here the data holds one entry.
\<close>

definition with_locale_data :: "string \<Rightarrow> string" where
  "with_locale_data text =
     (if text = ''Move block up'' then ''Block nach oben verschieben'' else text)"

text \<open>
  An editor with one top-level ordering and one lock, for the examples of section 8 of the
  specification.
\<close>

definition example_editor :: "lock_value \<Rightarrow> clientId list \<Rightarrow> editor" where
  "example_editor lock items =
     \<lparr> ordering = (\<lambda>rootId. items), container = (\<lambda>item. None), lockState = (\<lambda>rootId. lock) \<rparr>"

section \<open>What the selection wiring computes\<close>

lemma mapSelectToProps_state: "snd (mapSelectToProps sel cids s) = s"
  by (simp add: mapSelectToProps_def withSelect_locals_def select_call_def Let_def)

lemma mapSelectToProps_props:
  "fst (mapSelectToProps sel cids s) =
     (let rootId = getBlockRootClientId sel s (lodash_first (castArray cids)) in
      \<lparr> firstIndex = getBlockIndex sel s (lodash_first (castArray cids)) rootId,
        isFirst = (getBlockIndex sel s (lodash_first (castArray cids)) rootId = 0),
        isLast = (getBlockIndex sel s (lodash_last (castArray cids)) rootId
                    = int (length (getBlockOrder sel s rootId)) - 1),
        isLocked = (getTemplateLock sel s rootId = LockString ''all''),
        rootClientId = rootId \<rparr>)"
  by (simp add: mapSelectToProps_def withSelect_locals_def select_call_def Let_def)

lemma withSelect_locals_eq:
  "withSelect_locals sel cids s =
     (let rootId = getBlockRootClientId sel s (lodash_first (castArray cids)) in
      ((rootId, getBlockOrder sel s rootId,
        getBlockIndex sel s (lodash_first (castArray cids)) rootId,
        getBlockIndex sel s (lodash_last (castArray cids)) rootId), s))"
  by (simp add: withSelect_locals_def select_call_def Let_def)

lemma BlockMover_composed_eq:
  "BlockMover_composed sel tr iid cids horizontal s =
     (BlockMover tr
        \<lparr> firstIndex = firstIndex (fst (mapSelectToProps sel cids s)),
          isFirst = isFirst (fst (mapSelectToProps sel cids s)),
          isLast = isLast (fst (mapSelectToProps sel cids s)),
          isLocked = isLocked (fst (mapSelectToProps sel cids s)),
          rootClientId = rootClientId (fst (mapSelectToProps sel cids s)),
          onMoveDown =
            Partial moveBlocksDown cids (rootClientId (fst (mapSelectToProps sel cids s))),
          onMoveUp =
            Partial moveBlocksUp cids (rootClientId (fst (mapSelectToProps sel cids s))),
          horizontalDirection = horizontal, instanceId = iid \<rparr>, s)"
  using mapSelectToProps_state [of sel cids s]
  by (simp add: BlockMover_composed_def mapDispatchToProps_def split_def Let_def)

lemma example_props:
  "fst (mapSelectToProps editor_selectors (Single c) (example_editor lock items)) =
     \<lparr> firstIndex = indexOf items c, isFirst = (indexOf items c = 0),
       isLast = (indexOf items c = int (length items) - 1),
       isLocked = (lock = LockString ''all''), rootClientId = None \<rparr>"
  by (simp add: mapSelectToProps_props editor_selectors_def example_editor_def)

section \<open>What the formatting service computes on the mover's template\<close>

lemma sprintf_move_template:
  "sprintf ''Move block %2$s from %1$s %3$s to %1$s %4$s'' [Str loc, Str dir, Num a, Num b]
     = ''Move block '' @ dir @ '' from '' @ loc @ '' '' @ js_String (Num a)
       @ '' to '' @ loc @ '' '' @ js_String (Num b)"
  by (simp add: sprintf_def digit_value_def)

lemma show_nat_digit: "n < 10 \<Longrightarrow> show_nat n = [digit_char n]"
  by (simp add: show_nat.simps)

lemma js_String_1: "js_String (Num 1) = ''1''"
  by (simp add: show_nat_digit digit_char_def)

lemma js_String_2: "js_String (Num 2) = ''2''"
  by (simp add: show_nat_digit digit_char_def)

section \<open>Visibility and enablement\<close>

text \<open>
  C1. For all props, the mover renders its two buttons (rather than nothing) if and only
  if the container is not fully locked and it is not the case that the selection is both
  first and last while there is no root container (the root client id is \<^verbatim>\<open>null\<close>,
  \<^verbatim>\<open>undefined\<close> or empty).
\<close>

theorem controlsVisible_iff:
  "controlsVisible (BlockMover tr p) \<longleftrightarrow>
     \<not> isLocked p \<and> \<not> (isFirst p \<and> isLast p \<and> \<not> truthy (rootClientId p))"
  by (simp add: BlockMover_def Let_def)

theorem controlsVisible_iff_witness:
  "\<not> controlsVisible (BlockMover untranslated
      \<lparr> firstIndex = 0, isFirst = True, isLast = True, isLocked = False,
        rootClientId = Some [],
        onMoveDown = Partial moveBlocksDown (Single ''A'') (Some []),
        onMoveUp = Partial moveBlocksUp (Single ''A'') (Some []),
        horizontalDirection = False, instanceId = 0 \<rparr>)"
  using controlsVisible_iff [of untranslated
      "\<lparr> firstIndex = 0, isFirst = True, isLast = True, isLocked = False,
         rootClientId = Some [],
         onMoveDown = Partial moveBlocksDown (Single ''A'') (Some []),
         onMoveUp = Partial moveBlocksUp (Single ''A'') (Some []),
         horizontalDirection = False, instanceId = 0 \<rparr>"]
  by simp

text \<open>
  C2. For every selection, ordering and lock read from the store, the move-earlier control
  is enabled (rendered and not disabled) if and only if the selection is not first and the
  container is not fully locked, and the move-later control is enabled if and only if the
  selection is not last and the container is not fully locked. When the container is not
  locked, exactly one of \<open>isFirst\<close> and \<open>moveEarlierEnabled\<close> holds, and exactly one of
  \<open>isLast\<close> and \<open>moveLaterEnabled\<close>.
\<close>

theorem move_enabled_iff:
  "(moveEarlierEnabled (fst (BlockMover_composed sel tr iid cids horizontal s))
      \<longleftrightarrow> \<not> isFirst (fst (mapSelectToProps sel cids s))
          \<and> \<not> isLocked (fst (mapSelectToProps sel cids s)))
   \<and> (moveLaterEnabled (fst (BlockMover_composed sel tr iid cids horizontal s))
      \<longleftrightarrow> \<not> isLast (fst (mapSelectToProps sel cids s))
          \<and> \<not> isLocked (fst (mapSelectToProps sel cids s)))
   \<and> (\<not> isLocked (fst (mapSelectToProps sel cids s)) \<longrightarrow>
        (isFirst (fst (mapSelectToProps sel cids s))
           \<noteq> moveEarlierEnabled (fst (BlockMover_composed sel tr iid cids horizontal s)))
      \<and> (isLast (fst (mapSelectToProps sel cids s))
           \<noteq> moveLaterEnabled (fst (BlockMover_composed sel tr iid cids horizontal s))))"
  by (auto simp add: BlockMover_composed_def BlockMover_def mapDispatchToProps_def
        Let_def split_def)

theorem move_enabled_iff_witness:
  "moveEarlierEnabled (fst (BlockMover_composed editor_selectors untranslated 0
       (Single ''C'') False (example_editor LockUndefined [''A'', ''B'', ''C''])))
   \<and> \<not> moveLaterEnabled (fst (BlockMover_composed editor_selectors untranslated 0
       (Single ''C'') False (example_editor LockUndefined [''A'', ''B'', ''C''])))"
  using move_enabled_iff [of editor_selectors untranslated 0 "Single ''C''" False
      "example_editor LockUndefined [''A'', ''B'', ''C'']"]
  by (simp add: mapSelectToProps_props editor_selectors_def example_editor_def indexOf_def)

section \<open>Labels\<close>

text \<open>
  C3, as amended. With ordering \<open>[A, B, C]\<close>, selection \<open>[A]\<close>, a container that is not
  fully locked and the vertical axis: \<open>isFirst\<close> is true, \<open>isLast\<close> is false, the earlier
  control is disabled with the static label "Move block up", the later control is enabled,
  and the later control's label is "Move block down from row 1 to row 2": the direction
  word follows "Move block", the location noun precedes each ordinal.
\<close>

theorem example1_labels:
  assumes "ordering s (container s ''A'') = [''A'', ''B'', ''C'']"
    and "lockState s (container s ''A'') \<noteq> LockString ''all''"
  shows "isFirst (fst (mapSelectToProps editor_selectors (Single ''A'') s))
     \<and> \<not> isLast (fst (mapSelectToProps editor_selectors (Single ''A'') s))
     \<and> \<not> moveEarlierEnabled
           (fst (BlockMover_composed editor_selectors untranslated iid (Single ''A'') False s))
     \<and> moveLaterEnabled
           (fst (BlockMover_composed editor_selectors untranslated iid (Single ''A'') False s))
     \<and> earlierLabel
           (fst (BlockMover_composed editor_selectors untranslated iid (Single ''A'') False s))
         = Some ''Move block up''
     \<and> laterLabel
           (fst (BlockMover_composed editor_selectors untranslated iid (Single ''A'') False s))
         = Some ''Move block down from row 1 to row 2''"
proof -
  have sp: "fst (mapSelectToProps editor_selectors (Single ''A'') s) =
      \<lparr> firstIndex = 0, isFirst = True, isLast = False, isLocked = False,
        rootClientId = container s ''A'' \<rparr>"
    using assms by (simp add: mapSelectToProps_props editor_selectors_def indexOf_def)
  show ?thesis
    by (simp add: BlockMover_composed_eq sp BlockMover_def Let_def untranslated_def
          sprintf_move_template js_String_1 js_String_2 del: js_String.simps)
qed

theorem example1_labels_witness:
  "ordering (example_editor LockUndefined [''A'', ''B'', ''C''])
       (container (example_editor LockUndefined [''A'', ''B'', ''C'']) ''A'')
     = [''A'', ''B'', ''C'']
   \<and> lockState (example_editor LockUndefined [''A'', ''B'', ''C''])
       (container (example_editor LockUndefined [''A'', ''B'', ''C'']) ''A'')
     \<noteq> LockString ''all''
   \<and> earlierLabel (fst (BlockMover_composed editor_selectors untranslated 0 (Single ''A'') False
         (example_editor LockUndefined [''A'', ''B'', ''C''])))
       = Some ''Move block up''
   \<and> laterLabel (fst (BlockMover_composed editor_selectors untranslated 0 (Single ''A'') False
         (example_editor LockUndefined [''A'', ''B'', ''C''])))
       = Some ''Move block down from row 1 to row 2''"
proof -
  have h1: "ordering (example_editor LockUndefined [''A'', ''B'', ''C''])
       (container (example_editor LockUndefined [''A'', ''B'', ''C'']) ''A'')
     = [''A'', ''B'', ''C'']"
    by (simp add: example_editor_def)
  have h2: "lockState (example_editor LockUndefined [''A'', ''B'', ''C''])
       (container (example_editor LockUndefined [''A'', ''B'', ''C'']) ''A'')
     \<noteq> LockString ''all''"
    by (simp add: example_editor_def)
  show ?thesis
    using h1 h2 example1_labels [OF h1 h2, of 0] by simp
qed

text \<open>
  C3, as stated, fails: at the example's input the later control's label is not
  "Move block row from down 1 to down 2".
\<close>

theorem example1_later_label_counterexample:
  "laterLabel (fst (BlockMover_composed editor_selectors untranslated 0 (Single ''A'') False
       (example_editor LockUndefined [''A'', ''B'', ''C''])))
     \<noteq> Some ''Move block row from down 1 to down 2''"
  by (simp add: BlockMover_composed_eq example_props indexOf_def BlockMover_def Let_def
        untranslated_def sprintf_move_template js_String_1 js_String_2 del: js_String.simps)

text \<open>
  C4. For every rendered pair of controls, with the source's English texts: a control whose
  boundary flag is false is labelled "Move block", the axis-dependent direction word,
  "from", the location noun ("row" on the vertical axis, "position" on the horizontal one),
  the current ordinal \<open>firstIndex + 1\<close>, "to", the location noun and the target ordinal,
  which is \<open>firstIndex\<close> for the earlier control and \<open>firstIndex + 2\<close> for the later one. A
  control whose boundary flag is true carries the static axis-dependent title.
\<close>

theorem control_labels:
  assumes "BlockMover untranslated p = Fragment earlier later"
  shows "(isFirst p \<longrightarrow>
            title earlier =
              (if horizontalDirection p then ''Move block left'' else ''Move block up''))
       \<and> (\<not> isFirst p \<longrightarrow>
            title earlier =
              ''Move block '' @ (if horizontalDirection p then ''left'' else ''up'')
              @ '' from '' @ (if horizontalDirection p then ''position'' else ''row'')
              @ '' '' @ js_String (Num (firstIndex p + 1))
              @ '' to '' @ (if horizontalDirection p then ''position'' else ''row'')
              @ '' '' @ js_String (Num (firstIndex p)))
       \<and> (isLast p \<longrightarrow>
            title later =
              (if horizontalDirection p then ''Move block right'' else ''Move block down''))
       \<and> (\<not> isLast p \<longrightarrow>
            title later =
              ''Move block '' @ (if horizontalDirection p then ''right'' else ''down'')
              @ '' from '' @ (if horizontalDirection p then ''position'' else ''row'')
              @ '' '' @ js_String (Num (firstIndex p + 1))
              @ '' to '' @ (if horizontalDirection p then ''position'' else ''row'')
              @ '' '' @ js_String (Num (firstIndex p + 2)))"
proof -
  have e: "title earlier =
      (if \<not> isFirst p
       then sprintf ''Move block %2$s from %1$s %3$s to %1$s %4$s''
              [Str (if horizontalDirection p then ''position'' else ''row''),
               Str (if horizontalDirection p then ''left'' else ''up''),
               Num (firstIndex p + 1), Num (firstIndex p)]
       else (if horizontalDirection p then ''Move block left'' else ''Move block up''))"
    using assms by (auto simp add: BlockMover_def Let_def untranslated_def split: if_splits)
  have l: "title later =
      (if \<not> isLast p
       then sprintf ''Move block %2$s from %1$s %3$s to %1$s %4$s''
              [Str (if horizontalDirection p then ''position'' else ''row''),
               Str (if horizontalDirection p then ''right'' else ''down''),
               Num (firstIndex p + 1), Num (firstIndex p + 2)]
       else (if horizontalDirection p then ''Move block right'' else ''Move block down''))"
    using assms by (auto simp add: BlockMover_def Let_def untranslated_def split: if_splits)
  show ?thesis
    unfolding e l sprintf_move_template by simp
qed

theorem control_labels_witness:
  "BlockMover untranslated
      \<lparr> firstIndex = 1, isFirst = False, isLast = False, isLocked = False,
        rootClientId = None, onMoveDown = Partial moveBlocksDown (Single ''B'') None,
        onMoveUp = Partial moveBlocksUp (Single ''B'') None,
        horizontalDirection = True, instanceId = 0 \<rparr>
    = Fragment
        \<lparr> title = ''Move block left from position 2 to position 1'', isDisabled = False,
          onClick = Partial moveBlocksUp (Single ''B'') None, icon = arrowLeft,
          hint = ''Double tap to move the block to the left'' \<rparr>
        \<lparr> title = ''Move block right from position 2 to position 3'', isDisabled = False,
          onClick = Partial moveBlocksDown (Single ''B'') None, icon = arrowRight,
          hint = ''Double tap to move the block to the right'' \<rparr>"
  (is "?lhs = Fragment ?e ?l")
proof -
  have h: "?lhs = Fragment ?e ?l"
    by (simp add: BlockMover_def Let_def untranslated_def sprintf_move_template
          show_nat_digit digit_char_def)
  from control_labels [OF h] show ?thesis using h by simp
qed

section \<open>Positions\<close>

lemma indexOf_from_found:
  "x \<in> set xs \<Longrightarrow>
     k \<le> indexOf_from k xs x
     \<and> nat (indexOf_from k xs x - k) < length xs
     \<and> xs ! nat (indexOf_from k xs x - k) = x
     \<and> (\<forall>j < nat (indexOf_from k xs x - k). xs ! j \<noteq> x)"
proof (induction xs arbitrary: k)
  case Nil
  then show ?case by simp
next
  case (Cons y ys)
  show ?case
  proof (cases "y = x")
    case True
    then show ?thesis by simp
  next
    case False
    with Cons.prems have mem: "x \<in> set ys" by simp
    let ?r = "indexOf_from (k + 1) ys x"
    from Cons.IH [OF mem, of "k + 1"]
    have ih: "k + 1 \<le> ?r" "nat (?r - (k + 1)) < length ys"
      "ys ! nat (?r - (k + 1)) = x" "\<forall>j < nat (?r - (k + 1)). ys ! j \<noteq> x"
      by simp_all
    have step: "nat (?r - k) = Suc (nat (?r - (k + 1)))"
      using ih(1) by simp
    have "\<forall>j < Suc (nat (?r - (k + 1))). (y # ys) ! j \<noteq> x"
      using False ih(4) by (simp add: nth_Cons' less_Suc_eq_0_disj) auto
    then show ?thesis
      using False ih step by simp
  qed
qed

lemma indexOf_found:
  "x \<in> set xs \<Longrightarrow>
     0 \<le> indexOf xs x \<and> nat (indexOf xs x) < length xs
     \<and> xs ! nat (indexOf xs x) = x \<and> (\<forall>j < nat (indexOf xs x). xs ! j \<noteq> x)"
  using indexOf_from_found [of x xs 0] by (simp add: indexOf_def)

lemma lodash_first_hd: "xs \<noteq> [] \<Longrightarrow> lodash_first xs = Some (hd xs)"
  by (cases xs) simp_all

lemma lodash_last_last: "xs \<noteq> [] \<Longrightarrow> lodash_last xs = Some (last xs)"
  by (induction xs rule: lodash_last.induct) simp_all

text \<open>
  C5. Let \<open>r\<close>, \<open>ord\<close>, \<open>fi\<close> and \<open>li\<close> be the \<^verbatim>\<open>rootClientId\<close>, \<^verbatim>\<open>blockOrder\<close>, \<^verbatim>\<open>firstIndex\<close> and
  \<^verbatim>\<open>lastIndex\<close> the \<^verbatim>\<open>withSelect\<close> callback computes. The returned props have
  \<open>firstIndex = fi\<close>, \<open>isFirst = (fi = 0)\<close> and \<open>isLast = (li = length ord - 1)\<close>. Over the
  read port of the specification, for a non-empty selection whose first and last items are
  in the ordering, \<open>ord\<close> is the ordering of the first item's container, \<open>fi\<close> is the
  zero-based index of the first selected item in it and \<open>li\<close> that of the last selected
  item (the first position holding the item).
\<close>

theorem selection_indexes:
  fixes sel :: "editor selectors"
  assumes "withSelect_locals sel cids s = ((r, ord, fi, li), s')"
  shows "firstIndex (fst (mapSelectToProps sel cids s)) = fi
     \<and> isFirst (fst (mapSelectToProps sel cids s)) = (fi = 0)
     \<and> isLast (fst (mapSelectToProps sel cids s)) = (li = int (length ord) - 1)
     \<and> (sel = editor_selectors \<and> castArray cids \<noteq> []
          \<and> hd (castArray cids) \<in> set ord \<and> last (castArray cids) \<in> set ord
        \<longrightarrow> r = container s (hd (castArray cids)) \<and> ord = ordering s r
          \<and> 0 \<le> fi \<and> nat fi < length ord \<and> ord ! nat fi = hd (castArray cids)
          \<and> (\<forall>j < nat fi. ord ! j \<noteq> hd (castArray cids))
          \<and> 0 \<le> li \<and> nat li < length ord \<and> ord ! nat li = last (castArray cids)
          \<and> (\<forall>j < nat li. ord ! j \<noteq> last (castArray cids)))"
proof -
  have flags: "firstIndex (fst (mapSelectToProps sel cids s)) = fi
     \<and> isFirst (fst (mapSelectToProps sel cids s)) = (fi = 0)
     \<and> isLast (fst (mapSelectToProps sel cids s)) = (li = int (length ord) - 1)"
    using assms by (simp add: mapSelectToProps_def select_call_def)
  have idx: "r = container s (hd (castArray cids)) \<and> ord = ordering s r
          \<and> 0 \<le> fi \<and> nat fi < length ord \<and> ord ! nat fi = hd (castArray cids)
          \<and> (\<forall>j < nat fi. ord ! j \<noteq> hd (castArray cids))
          \<and> 0 \<le> li \<and> nat li < length ord \<and> ord ! nat li = last (castArray cids)
          \<and> (\<forall>j < nat li. ord ! j \<noteq> last (castArray cids))"
    if ed: "sel = editor_selectors" and ne: "castArray cids \<noteq> []"
      and m1: "hd (castArray cids) \<in> set ord" and m2: "last (castArray cids) \<in> set ord"
  proof -
    from assms ed ne have r: "r = container s (hd (castArray cids))"
      and ord: "ord = ordering s r"
      and fi: "fi = indexOf ord (hd (castArray cids))"
      and li: "li = indexOf ord (last (castArray cids))"
      by (auto simp add: withSelect_locals_eq editor_selectors_def lodash_first_hd
            lodash_last_last Let_def)
    show ?thesis
      using indexOf_found [OF m1] indexOf_found [OF m2] r ord
      unfolding fi li by simp
  qed
  show ?thesis
    using flags idx by blast
qed

theorem selection_indexes_witness:
  "withSelect_locals editor_selectors (Many [''A'', ''B''])
       (example_editor LockUndefined [''A'', ''B'', ''C''])
     = ((None, [''A'', ''B'', ''C''], 0, 1), example_editor LockUndefined [''A'', ''B'', ''C''])
   \<and> castArray (Many [''A'', ''B'']) \<noteq> []
   \<and> hd (castArray (Many [''A'', ''B''])) \<in> set [''A'', ''B'', ''C'']
   \<and> last (castArray (Many [''A'', ''B''])) \<in> set [''A'', ''B'', ''C'']
   \<and> [''A'', ''B'', ''C''] ! nat 0 = hd (castArray (Many [''A'', ''B'']))
   \<and> [''A'', ''B'', ''C''] ! nat 1 = last (castArray (Many [''A'', ''B'']))
   \<and> isFirst (fst (mapSelectToProps editor_selectors (Many [''A'', ''B''])
         (example_editor LockUndefined [''A'', ''B'', ''C''])))
   \<and> \<not> isLast (fst (mapSelectToProps editor_selectors (Many [''A'', ''B''])
         (example_editor LockUndefined [''A'', ''B'', ''C''])))"
proof -
  have h: "withSelect_locals editor_selectors (Many [''A'', ''B''])
       (example_editor LockUndefined [''A'', ''B'', ''C''])
     = ((None, [''A'', ''B'', ''C''], 0, 1), example_editor LockUndefined [''A'', ''B'', ''C''])"
    by (simp add: withSelect_locals_eq editor_selectors_def example_editor_def indexOf_def)
  show ?thesis
    using h selection_indexes [OF h] by simp
qed

section \<open>Determinism, locking and the frame\<close>

text \<open>
  C6, as amended. Two evaluations of the mover whose inputs \<open>isFirst\<close>, \<open>isLast\<close>,
  \<open>isLocked\<close>, \<open>firstIndex\<close>, \<open>rootClientId\<close> and axis agree have the same visibility and the
  same enablement, whatever the callbacks, the instance id and the translation functions
  are. They show the same labels, icons and hints whenever \<^verbatim>\<open>__\<close> translates the mover's
  texts alike in both: the locale data \<^verbatim>\<open>__\<close> reads is the one thing beyond the six inputs
  the result depends on. Evaluating the composed component a second time, in the store
  state the first evaluation leaves, gives the first result again.
\<close>

theorem evaluation_deterministic:
  fixes p :: "'a props" and q :: "'b props"
  assumes "isFirst p = isFirst q" and "isLast p = isLast q" and "isLocked p = isLocked q"
    and "firstIndex p = firstIndex q" and "rootClientId p = rootClientId q"
    and "horizontalDirection p = horizontalDirection q"
  shows "controlsVisible (BlockMover tr p) = controlsVisible (BlockMover tr' q)
     \<and> moveEarlierEnabled (BlockMover tr p) = moveEarlierEnabled (BlockMover tr' q)
     \<and> moveLaterEnabled (BlockMover tr p) = moveLaterEnabled (BlockMover tr' q)
     \<and> ((\<forall>t \<in> set translated_texts. tr t = tr' t)
          \<longrightarrow> shown (BlockMover tr p) = shown (BlockMover tr' q))
     \<and> BlockMover_composed sel tr iid cids horizontal
          (snd (BlockMover_composed sel tr iid cids horizontal s))
        = BlockMover_composed sel tr iid cids horizontal s"
proof -
  have flags: "controlsVisible (BlockMover tr p) = controlsVisible (BlockMover tr' q)
     \<and> moveEarlierEnabled (BlockMover tr p) = moveEarlierEnabled (BlockMover tr' q)
     \<and> moveLaterEnabled (BlockMover tr p) = moveLaterEnabled (BlockMover tr' q)"
    using assms by (simp add: BlockMover_def Let_def)
  have texts: "shown (BlockMover tr p) = shown (BlockMover tr' q)"
    if "\<forall>t \<in> set translated_texts. tr t = tr' t"
    using assms that by (simp add: BlockMover_def Let_def translated_texts_def)
  have again: "BlockMover_composed sel tr iid cids horizontal
          (snd (BlockMover_composed sel tr iid cids horizontal s))
        = BlockMover_composed sel tr iid cids horizontal s"
    by (simp add: BlockMover_composed_eq)
  show ?thesis
    using flags texts again by blast
qed

theorem evaluation_deterministic_witness:
  "shown (BlockMover untranslated
      \<lparr> firstIndex = 1, isFirst = False, isLast = True, isLocked = False,
        rootClientId = None, onMoveDown = Partial moveBlocksDown (Single ''B'') None,
        onMoveUp = Partial moveBlocksUp (Single ''B'') None,
        horizontalDirection = False, instanceId = 0 \<rparr>)
   = shown (BlockMover untranslated
      \<lparr> firstIndex = 1, isFirst = False, isLast = True, isLocked = False,
        rootClientId = None, onMoveDown = True, onMoveUp = False,
        horizontalDirection = False, instanceId = 7 \<rparr>)"
  (is "shown (BlockMover untranslated ?p) = shown (BlockMover untranslated ?q)")
proof -
  have texts: "\<forall>t \<in> set translated_texts. untranslated t = untranslated t"
    by simp
  have inputs: "isFirst ?p = isFirst ?q" "isLast ?p = isLast ?q" "isLocked ?p = isLocked ?q"
    "firstIndex ?p = firstIndex ?q" "rootClientId ?p = rootClientId ?q"
    "horizontalDirection ?p = horizontalDirection ?q"
    by simp_all
  from evaluation_deterministic [OF inputs, where tr = untranslated and tr' = untranslated
      and sel = editor_selectors and iid = 0 and cids = "Single ''B''" and horizontal = False
      and s = "example_editor LockUndefined [''A'', ''B'']"]
  have "(\<forall>t \<in> set translated_texts. untranslated t = untranslated t)
      \<longrightarrow> shown (BlockMover untranslated ?p) = shown (BlockMover untranslated ?q)"
    by (elim conjE)
  with texts show ?thesis
    by blast
qed

text \<open>
  C6, as stated, fails: two evaluations with the same six inputs, and the same callbacks
  and instance id too, show different labels when the locale data differs.
\<close>

theorem evaluation_locale_counterexample:
  "shown (BlockMover untranslated
      \<lparr> firstIndex = 0, isFirst = True, isLast = False, isLocked = False,
        rootClientId = None, onMoveDown = Partial moveBlocksDown (Single ''A'') None,
        onMoveUp = Partial moveBlocksUp (Single ''A'') None,
        horizontalDirection = False, instanceId = 0 \<rparr>)
   \<noteq> shown (BlockMover with_locale_data
      \<lparr> firstIndex = 0, isFirst = True, isLast = False, isLocked = False,
        rootClientId = None, onMoveDown = Partial moveBlocksDown (Single ''A'') None,
        onMoveUp = Partial moveBlocksUp (Single ''A'') None,
        horizontalDirection = False, instanceId = 0 \<rparr>)"
  by (simp add: BlockMover_def Let_def untranslated_def with_locale_data_def)

text \<open>
  C7. When the container is fully locked the evaluation returns a value, the empty render,
  and leaves the store as it was: for all props with \<open>isLocked\<close>, and for every store whose
  template lock for the selection's container is \<^verbatim>\<open>'all'\<close>, whatever the selection and the
  ordering are (also for an empty selection or items that are in no ordering). The model
  has no failing branch: the source has no \<^verbatim>\<open>throw\<close>, and the lock is tested before any
  label is formatted.
\<close>

theorem locked_renders_nothing:
  "(isLocked p \<longrightarrow> BlockMover tr p = Null)
   \<and> (getTemplateLock sel s (getBlockRootClientId sel s (lodash_first (castArray cids)))
        = LockString ''all''
      \<longrightarrow> BlockMover_composed sel tr iid cids horizontal s = (Null, s))"
  by (simp add: BlockMover_def Let_def BlockMover_composed_eq mapSelectToProps_props)

theorem locked_renders_nothing_witness:
  "BlockMover_composed editor_selectors untranslated 0 (Many []) True
      (example_editor (LockString ''all'') [''A'', ''B''])
    = (Null, example_editor (LockString ''all'') [''A'', ''B''])"
  using locked_renders_nothing [where sel = editor_selectors and tr = untranslated and iid = 0
      and cids = "Many []" and horizontal = True
      and s = "example_editor (LockString ''all'') [''A'', ''B'']"
      and p = "\<lparr> firstIndex = 0, isFirst = True, isLast = False, isLocked = True,
        rootClientId = None, onMoveDown = (), onMoveUp = (),
        horizontalDirection = False, instanceId = 0 \<rparr>"]
  by (simp add: editor_selectors_def example_editor_def)

text \<open>
  C8. An evaluation leaves the store state as it found it: after the \<^verbatim>\<open>withSelect\<close> callback
  and after the whole composed component the state is the initial one. When controls are
  rendered, the earlier control's \<^verbatim>\<open>onClick\<close> is the closure of \<^verbatim>\<open>moveBlocksUp\<close> and the later
  control's that of \<^verbatim>\<open>moveBlocksDown\<close>, both over the \<^verbatim>\<open>clientIds\<close> prop and the selected root
  client id; invoking one is a call of the store's own mover, whatever that does.
\<close>

theorem evaluation_frame:
  "snd (mapSelectToProps sel cids s) = s
   \<and> snd (BlockMover_composed sel tr iid cids horizontal s) = s
   \<and> (fst (BlockMover_composed sel tr iid cids horizontal s) = Fragment earlier later \<longrightarrow>
        onClick earlier
          = Partial moveBlocksUp cids
              (getBlockRootClientId sel s (lodash_first (castArray cids)))
      \<and> onClick later
          = Partial moveBlocksDown cids
              (getBlockRootClientId sel s (lodash_first (castArray cids)))
      \<and> invoke dispatch (onClick earlier) s
          = dispatch moveBlocksUp cids
              (getBlockRootClientId sel s (lodash_first (castArray cids))) s
      \<and> invoke dispatch (onClick later) s
          = dispatch moveBlocksDown cids
              (getBlockRootClientId sel s (lodash_first (castArray cids))) s)"
  by (auto simp add: mapSelectToProps_state BlockMover_composed_eq BlockMover_def Let_def
        mapSelectToProps_props split: if_splits)

theorem evaluation_frame_witness:
  "snd (BlockMover_composed editor_selectors untranslated 0 (Single ''B'') False
          (example_editor LockUndefined [''A'', ''B'', ''C'']))
     = example_editor LockUndefined [''A'', ''B'', ''C'']
   \<and> (\<exists>earlier later.
         fst (BlockMover_composed editor_selectors untranslated 0 (Single ''B'') False
                (example_editor LockUndefined [''A'', ''B'', ''C'']))
           = Fragment earlier later
       \<and> onClick earlier = Partial moveBlocksUp (Single ''B'') None
       \<and> onClick later = Partial moveBlocksDown (Single ''B'') None)"
proof -
  obtain earlier later where h:
    "fst (BlockMover_composed editor_selectors untranslated 0 (Single ''B'') False
            (example_editor LockUndefined [''A'', ''B'', ''C'']))
       = Fragment earlier later"
    by (simp add: BlockMover_composed_eq example_props indexOf_def BlockMover_def Let_def)
  have r: "getBlockRootClientId editor_selectors (example_editor LockUndefined [''A'', ''B'', ''C''])
             (lodash_first (castArray (Single ''B''))) = None"
    by (simp add: editor_selectors_def example_editor_def)
  show ?thesis
    using h r evaluation_frame [where sel = editor_selectors and tr = untranslated and iid = 0
        and cids = "Single ''B''" and horizontal = False
        and s = "example_editor LockUndefined [''A'', ''B'', ''C'']"
        and earlier = earlier and later = later and dispatch = "\<lambda>m c r s. s"]
    by simp
qed

text \<open>
  C9. \<open>isLocked\<close> holds exactly when the template lock of the selection's container is the
  string \<^verbatim>\<open>'all'\<close>. For every other lock value (\<^verbatim>\<open>'insert'\<close>, \<^verbatim>\<open>false\<close>, \<^verbatim>\<open>undefined\<close>, any other
  string) the controls are shown unless the selection is first and last with no root
  container, the earlier control is enabled exactly when the selection is not first and
  the later one exactly when it is not last.
\<close>

theorem locked_iff_all:
  "(isLocked (fst (mapSelectToProps sel cids s))
      \<longleftrightarrow> getTemplateLock sel s (getBlockRootClientId sel s (lodash_first (castArray cids)))
            = LockString ''all'')
   \<and> (getTemplateLock sel s (getBlockRootClientId sel s (lodash_first (castArray cids)))
         \<noteq> LockString ''all''
      \<longrightarrow> (controlsVisible (fst (BlockMover_composed sel tr iid cids horizontal s))
             \<longleftrightarrow> \<not> (isFirst (fst (mapSelectToProps sel cids s))
                     \<and> isLast (fst (mapSelectToProps sel cids s))
                     \<and> \<not> truthy (getBlockRootClientId sel s (lodash_first (castArray cids)))))
          \<and> (moveEarlierEnabled (fst (BlockMover_composed sel tr iid cids horizontal s))
             \<longleftrightarrow> \<not> isFirst (fst (mapSelectToProps sel cids s)))
          \<and> (moveLaterEnabled (fst (BlockMover_composed sel tr iid cids horizontal s))
             \<longleftrightarrow> \<not> isLast (fst (mapSelectToProps sel cids s))))"
  by (auto simp add: BlockMover_composed_eq BlockMover_def Let_def mapSelectToProps_props)

theorem locked_iff_all_witness:
  "\<not> isLocked (fst (mapSelectToProps editor_selectors (Single ''B'')
         (example_editor (LockString ''insert'') [''A'', ''B'', ''C''])))
   \<and> controlsVisible (fst (BlockMover_composed editor_selectors untranslated 0 (Single ''B'')
         False (example_editor (LockString ''insert'') [''A'', ''B'', ''C''])))
   \<and> moveEarlierEnabled (fst (BlockMover_composed editor_selectors untranslated 0 (Single ''B'')
         False (example_editor (LockString ''insert'') [''A'', ''B'', ''C''])))
   \<and> moveLaterEnabled (fst (BlockMover_composed editor_selectors untranslated 0 (Single ''B'')
         False (example_editor (LockString ''insert'') [''A'', ''B'', ''C''])))"
proof -
  have lock: "getTemplateLock editor_selectors
        (example_editor (LockString ''insert'') [''A'', ''B'', ''C''])
        (getBlockRootClientId editor_selectors
           (example_editor (LockString ''insert'') [''A'', ''B'', ''C''])
           (lodash_first (castArray (Single ''B''))))
      \<noteq> LockString ''all''"
    by (simp add: editor_selectors_def example_editor_def)
  show ?thesis
    using lock locked_iff_all [where sel = editor_selectors and tr = untranslated and iid = 0
        and cids = "Single ''B''" and horizontal = False
        and s = "example_editor (LockString ''insert'') [''A'', ''B'', ''C'']"]
    by (simp add: example_props indexOf_def)
qed

section \<open>The reduced-motion fragment\<close>

lemma reduceMotion_transition:
  "arg = None \<or> arg = Some ''transition'' \<Longrightarrow>
   reduceMotion arg =
     [nl, tab, tab] @ ''@media ( prefers-reduced-motion: reduce ) {''
     @ [nl, tab, tab, tab] @ ''transition-duration: 0ms;'' @ '';''
     @ [nl, tab, tab] @ ''}'' @ [nl, tab]"
  by (auto simp add: reduceMotion_def)

lemma reduceMotion_animation:
  "reduceMotion (Some ''animation'') =
     [nl, tab, tab] @ ''@media ( prefers-reduced-motion: reduce ) {''
     @ [nl, tab, tab, tab] @ ''animation-duration: 1ms;'' @ '';''
     @ [nl, tab, tab] @ ''}'' @ [nl, tab]"
  by (simp add: reduceMotion_def)

lemma reduceMotion_other:
  "arg \<noteq> None \<Longrightarrow> arg \<noteq> Some ''transition'' \<Longrightarrow> arg \<noteq> Some ''animation'' \<Longrightarrow>
   reduceMotion arg =
     [nl, tab, tab] @ ''@media ( prefers-reduced-motion: reduce ) {''
     @ [nl, tab, tab, tab]
     @ ([nl, tab, tab, tab, tab] @ ''animation-duration: 1ms;''
        @ [nl, tab, tab, tab, tab] @ ''transition-duration: 0ms;''
        @ [nl, tab, tab, tab]) @ '';''
     @ [nl, tab, tab] @ ''}'' @ [nl, tab]"
  by (cases arg) (simp_all add: reduceMotion_def)

lemma css_transition:
  "map_option declarations (media_body ''( prefers-reduced-motion: reduce )''
     ([nl, tab, tab] @ ''@media ( prefers-reduced-motion: reduce ) {''
     @ [nl, tab, tab, tab] @ ''transition-duration: 0ms;'' @ '';''
     @ [nl, tab, tab] @ ''}'' @ [nl, tab]))
   = Some [''transition-duration: 0ms'']"
  by (simp add: media_body_def trim_def is_space_def declarations_def)

lemma css_animation:
  "map_option declarations (media_body ''( prefers-reduced-motion: reduce )''
     ([nl, tab, tab] @ ''@media ( prefers-reduced-motion: reduce ) {''
     @ [nl, tab, tab, tab] @ ''animation-duration: 1ms;'' @ '';''
     @ [nl, tab, tab] @ ''}'' @ [nl, tab]))
   = Some [''animation-duration: 1ms'']"
  by (simp add: media_body_def trim_def is_space_def declarations_def)

lemma css_other:
  "map_option declarations (media_body ''( prefers-reduced-motion: reduce )''
     ([nl, tab, tab] @ ''@media ( prefers-reduced-motion: reduce ) {''
     @ [nl, tab, tab, tab]
     @ ([nl, tab, tab, tab, tab] @ ''animation-duration: 1ms;''
        @ [nl, tab, tab, tab, tab] @ ''transition-duration: 0ms;''
        @ [nl, tab, tab, tab]) @ '';''
     @ [nl, tab, tab] @ ''}'' @ [nl, tab]))
   = Some [''animation-duration: 1ms'', ''transition-duration: 0ms'']"
  by (simp add: media_body_def trim_def is_space_def declarations_def)

text \<open>
  C10. For every argument, \<^verbatim>\<open>reduceMotion\<close> returns the \<^verbatim>\<open>style\<close> text wrapped in
  \<^verbatim>\<open>@media ( prefers-reduced-motion: reduce ) { ... }\<close>, where \<^verbatim>\<open>style\<close> is
  \<^verbatim>\<open>transition-duration: 0ms;\<close> for \<^verbatim>\<open>'transition'\<close> and for an omitted argument,
  \<^verbatim>\<open>animation-duration: 1ms;\<close> for \<^verbatim>\<open>'animation'\<close>, and both declarations for any other
  value. The template writes a \<^verbatim>\<open>;\<close> after the interpolated style, so the body ends in an
  empty declaration; read as CSS, the declarations of the body are exactly the one, or the
  two, named.
\<close>

theorem reduceMotion_fragment:
  "reduceMotion arg =
     [nl, tab, tab] @ ''@media ( prefers-reduced-motion: reduce ) {''
     @ [nl, tab, tab, tab]
     @ (if arg = None \<or> arg = Some ''transition'' then ''transition-duration: 0ms;''
        else if arg = Some ''animation'' then ''animation-duration: 1ms;''
        else [nl, tab, tab, tab, tab] @ ''animation-duration: 1ms;''
             @ [nl, tab, tab, tab, tab] @ ''transition-duration: 0ms;''
             @ [nl, tab, tab, tab])
     @ '';'' @ [nl, tab, tab] @ ''}'' @ [nl, tab]
   \<and> map_option declarations
        (media_body ''( prefers-reduced-motion: reduce )'' (reduceMotion arg))
     = Some (if arg = None \<or> arg = Some ''transition'' then [''transition-duration: 0ms'']
             else if arg = Some ''animation'' then [''animation-duration: 1ms'']
             else [''animation-duration: 1ms'', ''transition-duration: 0ms''])"
proof -
  consider (t) "arg = None \<or> arg = Some ''transition''"
    | (a) "arg = Some ''animation''"
    | (o) "arg \<noteq> None" "arg \<noteq> Some ''transition''" "arg \<noteq> Some ''animation''"
    by blast
  then show ?thesis
  proof cases
    case t
    show ?thesis
      unfolding reduceMotion_transition [OF t] css_transition using t by auto
  next
    case a
    show ?thesis
      unfolding a reduceMotion_animation css_animation by simp
  next
    case o
    show ?thesis
      unfolding reduceMotion_other [OF o] css_other using o by simp
  qed
qed

theorem reduceMotion_fragment_witness:
  "map_option declarations
     (media_body ''( prefers-reduced-motion: reduce )'' (reduceMotion (Some ''opacity'')))
   = Some [''animation-duration: 1ms'', ''transition-duration: 0ms'']"
proof -
  from reduceMotion_fragment [of "Some ''opacity''"]
  have "map_option declarations
          (media_body ''( prefers-reduced-motion: reduce )'' (reduceMotion (Some ''opacity'')))
        = Some (if Some ''opacity'' = None \<or> Some ''opacity'' = Some ''transition''
                then [''transition-duration: 0ms'']
                else if Some ''opacity'' = Some ''animation'' then [''animation-duration: 1ms'']
                else [''animation-duration: 1ms'', ''transition-duration: 0ms''])"
    by (rule conjunct2)
  then show ?thesis by simp
qed

end
